theory Spec2Isabelle
  imports Main "HOL-Library.Char_ord" "HOL-Library.List_Lexorder" "HOL-Library.Multiset"
begin

section \<open>The executor's command runner: Firecracker and bare tiers\<close>

text \<open>
  A shallow embedding of the Go package \<^verbatim>\<open>command\<close> (the two files of
  \<^verbatim>\<open>src/unnamed/part_000\<close>): the Firecracker command formatter, the
  set-up and tear-down of a Firecracker virtual machine, the image sanitiser and the
  two runners. Go strings are byte sequences and are modelled as \<^typ>\<open>string\<close>;
  the empty string is \<^term>\<open>[] :: string\<close>.
\<close>

subsection \<open>Regular expressions\<close>

text \<open>
  The fragment of Go's \<^verbatim>\<open>regexp\<close> syntax that \<^verbatim>\<open>imagePattern\<close> is written
  in: a character class, a literal, a sequence, the greedy \<^verbatim>\<open>?\<close> and \<^verbatim>\<open>+\<close>, the
  counted repetition \<^verbatim>\<open>{n}\<close> and a numbered capturing group.
\<close>

datatype regexp =
    Class "char \<Rightarrow> bool"
  | Lit string
  | Seq regexp regexp
  | Opt regexp
  | Plus regexp
  | Times nat regexp
  | Group nat regexp

text \<open>
  A thread of the match is the text that is still to be read, with the groups captured
  so far. \<open>consumed s r\<close> is the part of \<open>s\<close> that was read when \<open>r\<close> remains.
\<close>

type_synonym groups = "nat \<rightharpoonup> string"

type_synonym thread = "string \<times> groups"

definition consumed :: "string \<Rightarrow> string \<Rightarrow> string" where
  "consumed s r = take (length s - length r) s"

text \<open>
  \<^verbatim>\<open>strings.HasPrefix\<close> and \<^verbatim>\<open>strings.TrimPrefix\<close> in one: the text after the
  prefix, if the prefix is there.
\<close>

fun strip_prefix :: "string \<Rightarrow> string \<Rightarrow> string option" where
  "strip_prefix [] s = Some s"
| "strip_prefix (p # ps) [] = None"
| "strip_prefix (p # ps) (c # cs) = (if p = c then strip_prefix ps cs else None)"

text \<open>
  Go's \<^verbatim>\<open>regexp\<close> returns, among the matches that start leftmost, the one that a
  backtracking matcher finds first. \<open>threads re s g\<close> lists the ways in which
  \<open>re\<close> matches at the head of \<open>s\<close> in the order in which a backtracking matcher
  tries them: a greedy repetition tries one more round before it stops, a greedy option
  tries its body before it skips it. A round of \<^verbatim>\<open>+\<close> is taken to read at least one
  character, as the character classes that \<^verbatim>\<open>imagePattern\<close> repeats do, so the
  number of rounds after the first is bounded by the length of the text.
\<close>

fun plus_iter ::
    "(string \<Rightarrow> groups \<Rightarrow> thread list) \<Rightarrow> nat \<Rightarrow> string \<Rightarrow> groups \<Rightarrow> thread list" where
  "plus_iter f 0 s g = f s g"
| "plus_iter f (Suc n) s g =
     concat (map (\<lambda>(s', g'). plus_iter f n s' g' @ [(s', g')]) (f s g))"

fun times_iter ::
    "(string \<Rightarrow> groups \<Rightarrow> thread list) \<Rightarrow> nat \<Rightarrow> string \<Rightarrow> groups \<Rightarrow> thread list" where
  "times_iter f 0 s g = [(s, g)]"
| "times_iter f (Suc n) s g = concat (map (\<lambda>(s', g'). times_iter f n s' g') (f s g))"

primrec threads :: "regexp \<Rightarrow> string \<Rightarrow> groups \<Rightarrow> thread list" where
  "threads (Class p) =
     (\<lambda>s g. case s of [] \<Rightarrow> [] | c # cs \<Rightarrow> if p c then [(cs, g)] else [])"
| "threads (Lit l) = (\<lambda>s g. case strip_prefix l s of None \<Rightarrow> [] | Some r \<Rightarrow> [(r, g)])"
| "threads (Seq a b) = (\<lambda>s g. concat (map (\<lambda>(s', g'). threads b s' g') (threads a s g)))"
| "threads (Opt a) = (\<lambda>s g. threads a s g @ [(s, g)])"
| "threads (Plus a) = (\<lambda>s g. plus_iter (threads a) (length s) s g)"
| "threads (Times n a) = (\<lambda>s g. times_iter (threads a) n s g)"
| "threads (Group i a) =
     (\<lambda>s g. map (\<lambda>(s', g'). (s', g'(i \<mapsto> consumed s s'))) (threads a s g))"

primrec NumSubexp :: "regexp \<Rightarrow> nat" where
  "NumSubexp (Class p) = 0"
| "NumSubexp (Lit l) = 0"
| "NumSubexp (Seq a b) = NumSubexp a + NumSubexp b"
| "NumSubexp (Opt a) = NumSubexp a"
| "NumSubexp (Plus a) = NumSubexp a"
| "NumSubexp (Times n a) = NumSubexp a"
| "NumSubexp (Group i a) = Suc (NumSubexp a)"

text \<open>
  The leftmost match: the first thread at the first position that has one. The result
  is the text of the match with the groups.
\<close>

fun leftmost :: "regexp \<Rightarrow> string \<Rightarrow> (string \<times> groups) option" where
  "leftmost re [] =
     (case threads re [] Map.empty of [] \<Rightarrow> None | (r, g) # _ \<Rightarrow> Some ([], g))"
| "leftmost re (c # cs) =
     (case threads re (c # cs) Map.empty of
        [] \<Rightarrow> leftmost re cs
      | (r, g) # _ \<Rightarrow> Some (consumed (c # cs) r, g))"

text \<open>
  \<^verbatim>\<open>FindStringSubmatch\<close>: the empty list (Go's \<^verbatim>\<open>nil\<close>) when there is no
  match, else the text of the match followed by the text of each group, a group that did
  not take part being the empty string.
\<close>

definition FindStringSubmatch :: "regexp \<Rightarrow> string \<Rightarrow> string list" where
  "FindStringSubmatch re s =
     (case leftmost re s of
        None \<Rightarrow> []
      | Some (whole, g) \<Rightarrow>
          whole # map (\<lambda>i. case g i of None \<Rightarrow> [] | Some x \<Rightarrow> x) [1..<Suc (NumSubexp re)])"

subsection \<open>The image pattern and sanitizeImage\<close>

text \<open>
  \<^verbatim>\<open>imagePattern = ([^:@]+)(?::([^@]+))?(?:@sha256:([a-z0-9]{64}))?\<close>

  The three character classes of the pattern, and the pattern. Go matches runes and
  the model matches bytes; the two agree on this pattern, whose classes are bounded by
  the ASCII characters \<^verbatim>\<open>:\<close> and \<^verbatim>\<open>@\<close> and by ASCII letters and digits.
\<close>

definition name_char :: "char \<Rightarrow> bool" where
  "name_char c \<longleftrightarrow> c \<noteq> CHR '':'' \<and> c \<noteq> CHR ''@''"

definition tag_char :: "char \<Rightarrow> bool" where
  "tag_char c \<longleftrightarrow> c \<noteq> CHR ''@''"

definition digest_char :: "char \<Rightarrow> bool" where
  "digest_char c \<longleftrightarrow>
     (CHR ''a'' \<le> c \<and> c \<le> CHR ''z'') \<or> (CHR ''0'' \<le> c \<and> c \<le> CHR ''9'')"

definition imagePattern :: regexp where
  "imagePattern =
     Seq (Group 1 (Plus (Class name_char)))
      (Seq (Opt (Seq (Lit '':'') (Group 2 (Plus (Class tag_char)))))
           (Opt (Seq (Lit ''@sha256:'') (Group 3 (Times 64 (Class digest_char))))))"

definition sanitizeImage :: "string \<Rightarrow> string" where
  "sanitizeImage img =
     (let matches = FindStringSubmatch imagePattern img in
      if length matches = 4 then
        (if matches ! 2 = [] then matches ! 1
         else matches ! 1 @ '':'' @ matches ! 2)
      else img)"

subsection \<open>The match of the image pattern, computed directly\<close>

text \<open>
  What the leftmost-first match of \<^verbatim>\<open>imagePattern\<close> comes to; that it is the match
  is proved below (\<open>FindStringSubmatch_imagePattern\<close>). Every part after the name is
  optional, so the match takes the longest name, then the tag group if it can take part,
  then the digest group if it can.

  The group \<^verbatim>\<open>(?::([^@]+))?\<close> at the text \<open>r\<close> that follows the name: the tag
  (empty when the group does not take part) and the text that remains.
\<close>

definition match_tag :: "string \<Rightarrow> string \<times> string" where
  "match_tag r =
     (case r of
        [] \<Rightarrow> ([], r)
      | c # t \<Rightarrow>
          if c = CHR '':'' \<and> takeWhile tag_char t \<noteq> []
          then (takeWhile tag_char t, dropWhile tag_char t)
          else ([], r))"

text \<open>
  The group \<^verbatim>\<open>(?:@sha256:([a-z0-9]{64}))?\<close> at the text \<open>r\<close> that follows the
  tag: the digest (empty when the group does not take part), and, in
  \<open>rest_digest\<close>, the text that remains.
\<close>

definition match_digest :: "string \<Rightarrow> string" where
  "match_digest r =
     (case strip_prefix ''@sha256:'' r of
        None \<Rightarrow> []
      | Some t \<Rightarrow>
          if length (take 64 t) = 64 \<and> list_all digest_char (take 64 t)
          then take 64 t else [])"

definition rest_digest :: "string \<Rightarrow> string" where
  "rest_digest r = (if match_digest r = [] then r else drop 72 r)"

text \<open>The thread after the two optional groups, and the submatch slice of a match.\<close>

definition after_name :: "string \<Rightarrow> groups \<Rightarrow> thread" where
  "after_name r g =
     (let (tag, r2) = match_tag r;
          g1 = (if tag = [] then g else g(2 \<mapsto> tag));
          digest = match_digest r2
      in (rest_digest r2, if digest = [] then g1 else g1(3 \<mapsto> digest)))"

definition match_at :: "string \<Rightarrow> string list" where
  "match_at s =
     (let name = takeWhile name_char s;
          r1 = dropWhile name_char s;
          (tag, r2) = match_tag r1;
          digest = match_digest r2
      in [name @ (if tag = [] then [] else CHR '':'' # tag)
               @ (if digest = [] then [] else ''@sha256:'' @ digest),
          name, tag, digest])"

text \<open>A match can start exactly at a name character.\<close>

fun first_match :: "string \<Rightarrow> string list" where
  "first_match [] = []"
| "first_match (c # cs) =
     (if name_char c then match_at (c # cs) else first_match cs)"


definition is_name :: "string \<Rightarrow> bool" where
  "is_name n \<longleftrightarrow> n \<noteq> [] \<and> list_all name_char n"

definition is_tag :: "string \<Rightarrow> bool" where
  "is_tag t \<longleftrightarrow> t \<noteq> [] \<and> list_all tag_char t"


definition image_reference :: "string \<Rightarrow> string \<Rightarrow> string \<Rightarrow> string" where
  "image_reference n t d =
     n @ (if t = [] then [] else '':'' @ t) @ (if d = [] then [] else ''@sha256:'' @ d)"


subsection \<open>Strings, paths and numbers of the Go library\<close>

text \<open>\<^verbatim>\<open>strings.Join(xs, sep)\<close>.\<close>

fun strings_Join :: "string list \<Rightarrow> string \<Rightarrow> string" where
  "strings_Join [] sep = []"
| "strings_Join [x] sep = x"
| "strings_Join (x # y # ys) sep = x @ sep @ strings_Join (y # ys) sep"

text \<open>\<^verbatim>\<open>strings.Split(s, "/")\<close>: the pieces between the slashes.\<close>

fun split_slash :: "string \<Rightarrow> string list" where
  "split_slash [] = [[]]"
| "split_slash (c # cs) =
     (if c = CHR ''/'' then [] # split_slash cs
      else (case split_slash cs of
              [] \<Rightarrow> [[c]]
            | e # es \<Rightarrow> (c # e) # es))"

text \<open>
  \<^verbatim>\<open>path.Clean\<close>, on the elements of the path: empty elements and
  \<^verbatim>\<open>.\<close> are dropped, \<^verbatim>\<open>..\<close> removes the element before it, is
  dropped at the root and is kept at the start of a relative path. \<open>out\<close> holds the
  elements kept so far, the last one first.
\<close>

fun clean_elems :: "bool \<Rightarrow> string list \<Rightarrow> string list \<Rightarrow> string list" where
  "clean_elems rooted [] out = rev out"
| "clean_elems rooted (e # es) out =
     (if e = [] \<or> e = ''.'' then clean_elems rooted es out
      else if e = ''..'' then
        (case out of
           [] \<Rightarrow> if rooted then clean_elems rooted es [] else clean_elems rooted es [e]
         | p # ps \<Rightarrow>
             if p = ''..'' then clean_elems rooted es (e # out)
             else clean_elems rooted es ps)
      else clean_elems rooted es (e # out))"

definition path_Clean :: "string \<Rightarrow> string" where
  "path_Clean p =
     (let rooted = (p \<noteq> [] \<and> hd p = CHR ''/'');
          r = (if rooted then ''/'' else []) @
              strings_Join (clean_elems rooted (split_slash p) []) ''/''
      in if r = [] then ''.'' else r)"

text \<open>
  \<^verbatim>\<open>path.Join(a, b)\<close>: empty when both are, else the elements from the first
  non-empty one on, joined by a slash and cleaned.
\<close>

definition path_Join :: "string \<Rightarrow> string \<Rightarrow> string" where
  "path_Join a b =
     (if a = [] \<and> b = [] then []
      else if a = [] then path_Clean b
      else path_Clean (a @ ''/'' @ b))"

text \<open>\<^verbatim>\<open>strconv.Itoa\<close>: the decimal digits of an integer, with a minus sign.\<close>

fun digits :: "nat \<Rightarrow> string" where
  "digits n =
     (if n < 10 then [char_of (48 + n)]
      else digits (n div 10) @ [char_of (48 + n mod 10)])"

definition strconv_Itoa :: "int \<Rightarrow> string" where
  "strconv_Itoa i = (if i < 0 then CHR ''-'' # digits (nat (- i)) else digits (nat i))"

text \<open>\<^verbatim>\<open>sort.Strings\<close>: ascending in the byte-wise order of Go's strings.\<close>

definition sort_Strings :: "string list \<Rightarrow> string list" where
  "sort_Strings xs = sort xs"

subsection \<open>The data of the package\<close>

text \<open>
  \<^verbatim>\<open>*observation.Operation\<close> is a tracing handle that the package only passes on;
  \<open>None\<close> is the nil pointer.
\<close>

datatype operation = Op string

record CommandSpec =
  Key :: string
  Image :: string
  ScriptPath :: string
  Command :: "string list"
  Dir :: string
  Env :: "string list"
  Operation :: "operation option"

text \<open>
  The struct \<^verbatim>\<open>command\<close> handed to the execution primitive. Its declaration is
  not among the sources; the fields are those the sources read and write. A field left
  out of a struct literal has Go's zero value: the empty string, the nil slice.
\<close>

record command =
  Key :: string
  Command :: "string list"
  Dir :: string
  Env :: "string list"
  Operation :: "operation option"

record FirecrackerOptions =
  Enabled :: bool
  Image :: string
  KernelImage :: string
  VMStartupScriptPath :: string
  DockerRegistryMirrorAddress :: string

record ResourceOptions =
  NumCPUs :: int
  Memory :: string
  DiskSpace :: string
  DockerHostMountPath :: string

record Options =
  ExecutorName :: string
  FirecrackerOptions :: FirecrackerOptions
  ResourceOptions :: ResourceOptions

text \<open>
  The fields of \<^verbatim>\<open>Operations\<close> that the set-up and the tear-down read. The
  pointer the runner holds is taken to be non-nil.
\<close>

record Operations =
  SetupFirecrackerStart :: "operation option"
  SetupStartupScript :: "operation option"
  TeardownFirecrackerRemove :: "operation option"

record dockerDaemonConfig =
  RegistryMirrors :: "string list"

subsection \<open>Errors\<close>

text \<open>
  An error is a failure reported by the operating system or by an invoked process,
  \<^verbatim>\<open>errors.Wrap(err, msg)\<close>, or the combination of several errors that
  \<^verbatim>\<open>errors.Append\<close> builds. \<open>None\<close> is Go's nil error.
\<close>

datatype error = Failure string | Wrap error string | Multi "error list"

fun errors_of :: "error option \<Rightarrow> error list" where
  "errors_of None = []"
| "errors_of (Some (Multi es)) = es"
| "errors_of (Some e) = [e]"

text \<open>
  Modelled from the spec: \<^verbatim>\<open>errors.Append\<close> is not among the sources, only its tests
  are (\<^verbatim>\<open>src/unnamed/part_001\<close>): appending nil to nil is nil, nil errors are
  skipped, and the result lists the errors appended so far.
\<close>

definition errors_Append :: "error option \<Rightarrow> error option \<Rightarrow> error option" where
  "errors_Append e1 e2 =
     (if e1 = None \<and> e2 = None then None else Some (Multi (errors_of e1 @ errors_of e2)))"

text \<open>
  Whether an error carries a context message, that is, whether \<^verbatim>\<open>errors.Wrap\<close>
  was applied to it or, for a combined error, to one of its parts.
\<close>

fun is_wrapped :: "error \<Rightarrow> bool" where
  "is_wrapped (Failure m) = False"
| "is_wrapped (Wrap e m) = True"
| "is_wrapped (Multi es) = list_ex is_wrapped es"

subsection \<open>The host: processes, files and the log\<close>

text \<open>
  The state of the host as far as the package touches it: the commands handed to the
  execution primitive (oldest first), the contents of the files, the paths handed to
  \<^verbatim>\<open>os.RemoveAll\<close>, and the lines written by \<^verbatim>\<open>log15.Error\<close> (message,
  virtual machine name, error).
\<close>

record host =
  invocations :: "command list"
  files :: "string \<rightharpoonup> string"
  removals :: "string list"
  logged :: "(string \<times> string \<times> error) list"

text \<open>
  What the host answers: for each operation the error it reports, if any. The context
  and the logger that the Go functions pass through to the primitive are left out.
\<close>

record faults =
  run_error :: "command \<Rightarrow> error option"
  create_error :: "string \<Rightarrow> error option"
  write_error :: "string \<Rightarrow> error option"
  close_error :: "string \<Rightarrow> error option"
  removeAll_error :: "string \<Rightarrow> error option"
  mkdirTemp :: "error + string"

text \<open>
  Modelled from the spec: the execution primitive \<^verbatim>\<open>runCommand\<close> is not among the
  sources. Section 6 of the specification gives its interface,
  \<^verbatim>\<open>invoke(argv, workdir, env) -> (output, error)\<close>; the model records the command
  and returns the host's answer.
\<close>

definition runCommand :: "faults \<Rightarrow> command \<Rightarrow> host \<Rightarrow> error option \<times> host" where
  "runCommand fl cmd w = (run_error fl cmd, w\<lparr>invocations := invocations w @ [cmd]\<rparr>)"

text \<open>\<^verbatim>\<open>runnerWrapper.RunCommand\<close>, the only \<^verbatim>\<open>commandRunner\<close> of the package.\<close>

definition RunCommand :: "faults \<Rightarrow> command \<Rightarrow> host \<Rightarrow> error option \<times> host" where
  "RunCommand fl cmd w = runCommand fl cmd w"

text \<open>\<^verbatim>\<open>os.Create\<close> makes the file empty; \<^verbatim>\<open>os.WriteFile\<close> replaces its content.\<close>

definition os_Create :: "faults \<Rightarrow> string \<Rightarrow> host \<Rightarrow> error option \<times> host" where
  "os_Create fl p w =
     (case create_error fl p of
        Some e \<Rightarrow> (Some e, w)
      | None \<Rightarrow> (None, w\<lparr>files := (files w)(p \<mapsto> [])\<rparr>))"

definition os_WriteFile :: "faults \<Rightarrow> string \<Rightarrow> string \<Rightarrow> host \<Rightarrow> error option \<times> host" where
  "os_WriteFile fl p c w =
     (case write_error fl p of
        Some e \<Rightarrow> (Some e, w)
      | None \<Rightarrow> (None, w\<lparr>files := (files w)(p \<mapsto> c)\<rparr>))"

text \<open>
  \<^verbatim>\<open>os.RemoveAll\<close>: every call is recorded; the empty path is accepted and removes
  nothing; a call that succeeds removes the path and the files below it.
\<close>

definition below :: "string \<Rightarrow> string \<Rightarrow> bool" where
  "below d p \<longleftrightarrow> p = d \<or> strip_prefix (d @ ''/'') p \<noteq> None"

definition os_RemoveAll :: "faults \<Rightarrow> string \<Rightarrow> host \<Rightarrow> error option \<times> host" where
  "os_RemoveAll fl p w =
     (let w1 = w\<lparr>removals := removals w @ [p]\<rparr> in
      if p = [] then (None, w1)
      else (case removeAll_error fl p of
              Some e \<Rightarrow> (Some e, w1)
            | None \<Rightarrow> (None, w1\<lparr>files := (\<lambda>q. if below p q then None else files w q)\<rparr>)))"

definition log15_Error :: "string \<Rightarrow> string \<Rightarrow> error \<Rightarrow> host \<Rightarrow> host" where
  "log15_Error msg vm err w = w\<lparr>logged := logged w @ [(msg, vm, err)]\<rparr>"

subsection \<open>The daemon configuration in JSON\<close>

text \<open>
  \<^verbatim>\<open>json.Marshal\<close> of a string, for a string that is valid UTF-8: the quote and
  the backslash are escaped by a backslash, newline, carriage return and tab are written
  \<^verbatim>\<open>\n\<close>, \<^verbatim>\<open>\r\<close>, \<^verbatim>\<open>\t\<close>, the other control characters and
  \<^verbatim>\<open><\<close>, \<^verbatim>\<open>>\<close>, \<^verbatim>\<open>&\<close> are written \<^verbatim>\<open>\u00XX\<close> (Go 1.22 and
  later write \<^verbatim>\<open>\b\<close> and \<^verbatim>\<open>\f\<close> for two of them), the line and
  paragraph separators (U+2028, U+2029) are written \<^verbatim>\<open>\u2028\<close> and
  \<^verbatim>\<open>\u2029\<close>, and every other byte is copied.
\<close>

definition hex_digit :: "nat \<Rightarrow> char" where
  "hex_digit n = ''0123456789abcdef'' ! (n mod 16)"

definition json_escape :: "char \<Rightarrow> string" where
  "json_escape c =
     (if c = CHR 0x22 \<or> c = CHR 0x5C then [CHR 0x5C, c]
      else if c = CHR 0x0A then [CHR 0x5C, CHR ''n'']
      else if c = CHR 0x0D then [CHR 0x5C, CHR ''r'']
      else if c = CHR 0x09 then [CHR 0x5C, CHR ''t'']
      else if (of_char c :: nat) < 32 \<or> c = CHR ''<'' \<or> c = CHR ''>'' \<or> c = CHR ''&''
      then [CHR 0x5C, CHR ''u'', CHR ''0'', CHR ''0'',
            hex_digit (of_char c div 16), hex_digit (of_char c)]
      else [c])"

fun json_chars :: "string \<Rightarrow> string" where
  "json_chars [] = []"
| "json_chars (c # cs) =
     (if c = CHR 0xE2 \<and> take 2 cs = [CHR 0x80, CHR 0xA8]
      then [CHR 0x5C, CHR ''u'', CHR ''2'', CHR ''0'', CHR ''2'', CHR ''8'']
           @ json_chars (drop 2 cs)
      else if c = CHR 0xE2 \<and> take 2 cs = [CHR 0x80, CHR 0xA9]
      then [CHR 0x5C, CHR ''u'', CHR ''2'', CHR ''0'', CHR ''2'', CHR ''9'']
           @ json_chars (drop 2 cs)
      else json_escape c @ json_chars cs)"

definition json_string :: "string \<Rightarrow> string" where
  "json_string s = [CHR 0x22] @ json_chars s @ [CHR 0x22]"

text \<open>
  \<^verbatim>\<open>json.Marshal\<close> of a \<^verbatim>\<open>dockerDaemonConfig\<close> whose slice is not nil: one
  field, named by its tag \<^verbatim>\<open>registry-mirrors\<close>. The call cannot fail on this type;
  the result keeps Go's error for the branch that tests it.
\<close>

definition json_Marshal :: "dockerDaemonConfig \<Rightarrow> error + string" where
  \<open>json_Marshal c =
     Inr (''{"registry-mirrors":['' @ strings_Join (map json_string (RegistryMirrors c)) '','' @ '']}'')\<close>

subsection \<open>Helpers of the package that are not among the sources\<close>

text \<open>
  Modelled from the spec: \<^verbatim>\<open>flatten\<close> is not among the sources. Section 6 of the
  specification lists the tokens of each invocation in the order of the arguments of
  \<^verbatim>\<open>flatten\<close>, a string argument giving one token and a slice argument its elements.
\<close>

datatype arg = Str string | Strs "string list"

fun flatten :: "arg list \<Rightarrow> string list" where
  "flatten [] = []"
| "flatten (Str s # as) = s # flatten as"
| "flatten (Strs ss # as) = ss @ flatten as"

text \<open>
  Modelled from the spec: \<^verbatim>\<open>intersperse\<close> is not among the sources. Section 6 of the
  specification gives what it renders for the copy-files flag: nothing when there are no
  files to copy, else the flag followed by the pairs, separated by commas:
  \<^verbatim>\<open>--copy-files <src:dst>[,<src:dst>...]\<close>.
\<close>

definition intersperse :: "string \<Rightarrow> string list \<Rightarrow> string list" where
  "intersperse flag vs = (if vs = [] then [] else [flag, strings_Join vs '',''])"

text \<open>
  The remaining helpers are parameters of the model: the quoting of the words of a
  command into one string (\<^verbatim>\<open>shellquote.Join\<close>), the quoting of the environment
  assignments (\<^verbatim>\<open>quoteEnv\<close>), and the container invocation that
  \<^verbatim>\<open>formatRawOrDockerCommand\<close> builds for a specification with an image.
\<close>

record helpers =
  shellquote_Join :: "string list \<Rightarrow> string"
  quoteEnv :: "string list \<Rightarrow> string list"
  dockerCommand :: "CommandSpec \<Rightarrow> string \<Rightarrow> Options \<Rightarrow> command"

text \<open>
  Modelled from the spec: \<^verbatim>\<open>formatRawOrDockerCommand\<close> is not among the sources.
  Section 4.2 of the specification: for a specification with no image the result is the
  direct argument list, the command tokens, in the given working directory (the
  specification's directory below the base directory, the base directory itself when
  the specification names none), the environment assignments being handed to the child
  process and not embedded in the command line; for a specification with an image it is
  a container invocation.
\<close>

definition formatRawOrDockerCommand ::
    "helpers \<Rightarrow> CommandSpec \<Rightarrow> string \<Rightarrow> Options \<Rightarrow> command" where
  "formatRawOrDockerCommand h spec d options =
     (if CommandSpec.Image spec = [] then
        \<lparr>Key = CommandSpec.Key spec,
         Command = CommandSpec.Command spec,
         Dir = path_Join d (CommandSpec.Dir spec),
         Env = CommandSpec.Env spec,
         Operation = CommandSpec.Operation spec\<rparr>
      else dockerCommand h spec d options)"

subsection \<open>The Firecracker command formatter\<close>

definition firecrackerContainerDir :: string where
  "firecrackerContainerDir = ''/work''"

definition formatFirecrackerCommand ::
    "helpers \<Rightarrow> CommandSpec \<Rightarrow> string \<Rightarrow> Options \<Rightarrow> command" where
  "formatFirecrackerCommand h spec vm options =
     (let rawOrDockerCommand = formatRawOrDockerCommand h spec firecrackerContainerDir options;
          innerCommand = shellquote_Join h (Command rawOrDockerCommand);
          innerCommand =
            (if length (Env rawOrDockerCommand) > 0
             then strings_Join (quoteEnv h (Env rawOrDockerCommand)) '' '' @ '' '' @ innerCommand
             else innerCommand);
          innerCommand =
            (if Dir rawOrDockerCommand \<noteq> []
             then ''cd '' @ Dir rawOrDockerCommand @ '' && '' @ innerCommand
             else innerCommand)
      in \<lparr>Key = CommandSpec.Key spec,
          Command = [''ignite'', ''exec'', vm, ''--'', innerCommand],
          Dir = [],
          Env = [],
          Operation = CommandSpec.Operation spec\<rparr>)"

subsection \<open>Set-up and tear-down of the virtual machine\<close>

definition dockerDaemonConfigFilename :: string where
  "dockerDaemonConfigFilename = ''docker-daemon.json''"

text \<open>
  \<^verbatim>\<open>newDockerDaemonConfig\<close> returns the name of the file and an error. The
  deferred function appends the error of closing the file to the error returned.
\<close>

definition newDockerDaemonConfig ::
    "faults \<Rightarrow> string \<Rightarrow> string \<Rightarrow> host \<Rightarrow> (string \<times> error option) \<times> host" where
  "newDockerDaemonConfig fl tmpDir mirrorAddress w =
     (let p = path_Join tmpDir dockerDaemonConfigFilename in
      case os_Create fl p w of
        (Some err, w1) \<Rightarrow>
          (([], Some (Wrap err ''creating temp file for docker daemon config'')), w1)
      | (None, w1) \<Rightarrow>
          (let daemonConfigFile = p in
           case json_Marshal \<lparr>RegistryMirrors = [mirrorAddress]\<rparr> of
             Inl err \<Rightarrow>
               ((daemonConfigFile,
                 errors_Append (Some (Wrap err ''marshalling docker daemon config''))
                   (close_error fl p)), w1)
           | Inr c \<Rightarrow>
               (case os_WriteFile fl daemonConfigFile c w1 of
                  (err, w2) \<Rightarrow>
                    ((daemonConfigFile, errors_Append err (close_error fl p)), w2))))"

definition firecrackerResourceFlags :: "ResourceOptions \<Rightarrow> string list" where
  "firecrackerResourceFlags options =
     [''--cpus'', strconv_Itoa (NumCPUs options),
      ''--memory'', Memory options,
      ''--size'', DiskSpace options]"

text \<open>
  \<^verbatim>\<open>firecrackerCopyfileFlags\<close>: \<open>collected\<close> is the slice before it is
  sorted, \<open>copyfiles\<close> the slice after.
\<close>

definition collected :: "string \<Rightarrow> string \<Rightarrow> string list" where
  "collected vmStartupScriptPath daemonConfigFile =
     (if vmStartupScriptPath \<noteq> [] then [vmStartupScriptPath @ '':'' @ vmStartupScriptPath]
      else []) @
     (if daemonConfigFile \<noteq> [] then [daemonConfigFile @ '':'' @ ''/etc/docker/daemon.json'']
      else [])"

definition copyfiles :: "string \<Rightarrow> string \<Rightarrow> string list" where
  "copyfiles vmStartupScriptPath daemonConfigFile =
     sort_Strings (collected vmStartupScriptPath daemonConfigFile)"

definition firecrackerCopyfileFlags :: "string \<Rightarrow> string \<Rightarrow> string list" where
  "firecrackerCopyfileFlags vmStartupScriptPath daemonConfigFile =
     intersperse ''--copy-files'' (copyfiles vmStartupScriptPath daemonConfigFile)"

definition firecrackerVolumeFlags :: "string \<Rightarrow> string \<Rightarrow> string list" where
  "firecrackerVolumeFlags workspaceDevice containerDir =
     [''--volumes'', workspaceDevice @ '':'' @ containerDir]"


text \<open>The three commands that the set-up and the tear-down hand to the runner.\<close>

definition startCommand ::
    "string \<Rightarrow> string \<Rightarrow> string \<Rightarrow> Options \<Rightarrow> Operations \<Rightarrow> command" where
  "startCommand vm workspaceDevice daemonConfigFile options operations =
     \<lparr>Key = ''setup.firecracker.start'',
      Command = flatten
        [Str ''ignite'', Str ''run'',
         Str ''--runtime'', Str ''docker'',
         Str ''--network-plugin'', Str ''cni'',
         Strs (firecrackerResourceFlags (ResourceOptions options)),
         Strs (firecrackerCopyfileFlags
                 (VMStartupScriptPath (FirecrackerOptions options)) daemonConfigFile),
         Strs (firecrackerVolumeFlags workspaceDevice firecrackerContainerDir),
         Str ''--ssh'',
         Str ''--name'', Str vm,
         Str ''--kernel-image'', Str (sanitizeImage (KernelImage (FirecrackerOptions options))),
         Str (sanitizeImage (FirecrackerOptions.Image (FirecrackerOptions options)))],
      Dir = [],
      Env = [],
      Operation = SetupFirecrackerStart operations\<rparr>"

definition startupScriptCommand :: "string \<Rightarrow> Options \<Rightarrow> Operations \<Rightarrow> command" where
  "startupScriptCommand vm options operations =
     \<lparr>Key = ''setup.startup-script'',
      Command = flatten
        [Str ''ignite'', Str ''exec'', Str vm, Str ''--'',
         Str (VMStartupScriptPath (FirecrackerOptions options))],
      Dir = [],
      Env = [],
      Operation = SetupStartupScript operations\<rparr>"

definition removeCommand :: "string \<Rightarrow> Operations \<Rightarrow> command" where
  "removeCommand vm operations =
     \<lparr>Key = ''teardown.firecracker.remove'',
      Command = flatten [Str ''ignite'', Str ''rm'', Str ''-f'', Str vm],
      Dir = [],
      Env = [],
      Operation = TeardownFirecrackerRemove operations\<rparr>"

definition setupFirecracker ::
    "faults \<Rightarrow> string \<Rightarrow> string \<Rightarrow> string \<Rightarrow> Options \<Rightarrow> Operations \<Rightarrow> host
      \<Rightarrow> error option \<times> host" where
  "setupFirecracker fl vm workspaceDevice tmpDir options operations w =
     (case (if DockerRegistryMirrorAddress (FirecrackerOptions options) \<noteq> []
            then newDockerDaemonConfig fl tmpDir
                   (DockerRegistryMirrorAddress (FirecrackerOptions options)) w
            else (([], None), w)) of
        ((daemonConfigFile, Some err), w1) \<Rightarrow> (Some err, w1)
      | ((daemonConfigFile, None), w1) \<Rightarrow>
          (case RunCommand fl
                  (startCommand vm workspaceDevice daemonConfigFile options operations) w1 of
             (Some err, w2) \<Rightarrow> (Some (Wrap err ''failed to start firecracker vm''), w2)
           | (None, w2) \<Rightarrow>
               if VMStartupScriptPath (FirecrackerOptions options) \<noteq> [] then
                 (case RunCommand fl (startupScriptCommand vm options operations) w2 of
                    (Some err, w3) \<Rightarrow> (Some (Wrap err ''failed to run startup script''), w3)
                  | (None, w3) \<Rightarrow> (None, w3))
               else (None, w2)))"

definition teardownFirecracker ::
    "faults \<Rightarrow> string \<Rightarrow> string \<Rightarrow> Operations \<Rightarrow> host \<Rightarrow> error option \<times> host" where
  "teardownFirecracker fl vm tmpDir operations w =
     (let (r1, w1) = RunCommand fl (removeCommand vm operations) w;
          w2 = (case r1 of
                  Some err \<Rightarrow> log15_Error ''Failed to remove firecracker vm'' vm err w1
                | None \<Rightarrow> w1);
          (r2, w3) = os_RemoveAll fl tmpDir w2;
          w4 = (case r2 of
                  Some err \<Rightarrow>
                    log15_Error ''Failed to remove firecracker state tmp dir'' vm err w3
                | None \<Rightarrow> w3)
      in (None, w4))"

subsection \<open>The runners\<close>

text \<open>
  The two implementations of the interface \<^verbatim>\<open>Runner\<close>. The fields of
  \<^verbatim>\<open>dockerRunner\<close> are \<open>dir\<close>, \<open>logger\<close>, \<open>options\<close>; those of
  \<^verbatim>\<open>firecrackerRunner\<close> are \<open>name\<close>, \<open>workspaceDevice\<close>, \<open>logger\<close>,
  \<open>options\<close>, \<open>tmpDir\<close>, \<open>operations\<close>. A logger is a handle that is only
  passed on.
\<close>

type_synonym Logger = string

datatype Runner =
    dockerRunner string Logger Options
  | firecrackerRunner string string Logger Options string Operations

definition NewRunner :: "string \<Rightarrow> Logger \<Rightarrow> Options \<Rightarrow> Operations \<Rightarrow> Runner" where
  "NewRunner d lg options operations =
     (if \<not> Enabled (FirecrackerOptions options) then dockerRunner d lg options
      else firecrackerRunner (ExecutorName options) d lg options [] operations)"

text \<open>
  \<^verbatim>\<open>Setup\<close> of the Firecracker runner stores the temporary directory in the
  runner, so the three methods return the runner with the error and the host.
\<close>

fun Setup :: "faults \<Rightarrow> Runner \<Rightarrow> host \<Rightarrow> error option \<times> Runner \<times> host" where
  "Setup fl (dockerRunner d lg options) w = (None, dockerRunner d lg options, w)"
| "Setup fl (firecrackerRunner vm dev lg options tmpDir operations) w =
     (case mkdirTemp fl of
        Inl err \<Rightarrow>
          (Some (Wrap err ''failed to create tmp dir for firecracker runner''),
           firecrackerRunner vm dev lg options tmpDir operations, w)
      | Inr d \<Rightarrow>
          (case setupFirecracker fl vm dev d options operations w of
             (r, w1) \<Rightarrow> (r, firecrackerRunner vm dev lg options d operations, w1)))"

fun Teardown :: "faults \<Rightarrow> Runner \<Rightarrow> host \<Rightarrow> error option \<times> Runner \<times> host" where
  "Teardown fl (dockerRunner d lg options) w = (None, dockerRunner d lg options, w)"
| "Teardown fl (firecrackerRunner vm dev lg options tmpDir operations) w =
     (case teardownFirecracker fl vm tmpDir operations w of
        (r, w1) \<Rightarrow> (r, firecrackerRunner vm dev lg options tmpDir operations, w1))"

fun Run :: "helpers \<Rightarrow> faults \<Rightarrow> Runner \<Rightarrow> CommandSpec \<Rightarrow> host
    \<Rightarrow> error option \<times> Runner \<times> host" where
  "Run h fl (dockerRunner d lg options) spec w =
     (case runCommand fl (formatRawOrDockerCommand h spec d options) w of
        (r, w1) \<Rightarrow> (r, dockerRunner d lg options, w1))"
| "Run h fl (firecrackerRunner vm dev lg options tmpDir operations) spec w =
     (case runCommand fl (formatFirecrackerCommand h spec vm options) w of
        (r, w1) \<Rightarrow> (r, firecrackerRunner vm dev lg options tmpDir operations, w1))"

subsection \<open>Helpers for the examples\<close>

text \<open>
  The examples below use words of letters, digits and the characters
  \<^verbatim>\<open>= / . -\<close> only. Such words need no quoting, so for them the helpers are taken
  to leave every word as it is and to join the words of a command by single spaces. No
  example has an image, so the container invocation is not reached; it is given a
  command with no words.
\<close>

definition plain_helpers :: helpers where
  "plain_helpers =
     \<lparr>shellquote_Join = (\<lambda>ws. strings_Join ws '' ''),
      quoteEnv = (\<lambda>env. env),
      dockerCommand = (\<lambda>spec d options.
        \<lparr>Key = CommandSpec.Key spec, Command = [], Dir = [], Env = [],
         Operation = CommandSpec.Operation spec\<rparr>)\<rparr>"

text \<open>A host that reports no error, and a host with nothing on it.\<close>

definition no_faults :: faults where
  "no_faults =
     \<lparr>run_error = (\<lambda>c. None), create_error = (\<lambda>p. None), write_error = (\<lambda>p. None),
      close_error = (\<lambda>p. None), removeAll_error = (\<lambda>p. None),
      mkdirTemp = Inr ''/tmp/executor-firecracker-runner1''\<rparr>"

definition empty_host :: host where
  "empty_host = \<lparr>invocations = [], files = Map.empty, removals = [], logged = []\<rparr>"

text \<open>Options and operations for the examples.\<close>

definition example_options :: Options where
  "example_options =
     \<lparr>ExecutorName = ''vm'',
      FirecrackerOptions =
        \<lparr>Enabled = True,
         Image = ''sourcegraph/ignite-ubuntu:insiders'',
         KernelImage = ''sourcegraph/ignite-kernel:5.10.135-amd64'',
         VMStartupScriptPath = ''/vm-startup.sh'',
         DockerRegistryMirrorAddress = ''http://mirror.local''\<rparr>,
      ResourceOptions =
        \<lparr>NumCPUs = 4, Memory = ''12G'', DiskSpace = ''20G'', DockerHostMountPath = []\<rparr>\<rparr>"

definition example_operations :: Operations where
  "example_operations =
     \<lparr>SetupFirecrackerStart = Some (Op ''setup.firecracker.start''),
      SetupStartupScript = Some (Op ''setup.startup-script''),
      TeardownFirecrackerRemove = Some (Op ''teardown.firecracker.remove'')\<rparr>"


text \<open>A specification with no image, with two environment assignments and a directory.\<close>

definition example_spec :: CommandSpec where
  "example_spec =
     \<lparr>CommandSpec.Key = ''step.1'', Image = [], ScriptPath = [],
      Command = [''ls'', ''-la''], Dir = ''repo'', Env = [''A=1'', ''B=2''],
      Operation = None\<rparr>"

text \<open>
  Options with the Firecracker tier switched off, and the specification of the
  end-to-end scenario of the specification: the command \<^verbatim>\<open>echo hi\<close>.
\<close>

definition bare_options :: Options where
  "bare_options =
     \<lparr>ExecutorName = ''vm'',
      FirecrackerOptions =
        \<lparr>Enabled = False, Image = [], KernelImage = [], VMStartupScriptPath = [],
         DockerRegistryMirrorAddress = []\<rparr>,
      ResourceOptions =
        \<lparr>NumCPUs = 4, Memory = ''12G'', DiskSpace = ''20G'', DockerHostMountPath = []\<rparr>\<rparr>"

definition echo_spec :: CommandSpec where
  "echo_spec =
     \<lparr>CommandSpec.Key = ''step.1'', Image = [], ScriptPath = [],
      Command = [''echo'', ''hi''], Dir = [], Env = [], Operation = None\<rparr>"

text \<open>
  A host on which writing a file fails, and a host on which both steps of the tear-down
  fail.
\<close>

definition write_fault :: faults where
  "write_fault = no_faults\<lparr>write_error := (\<lambda>p. Some (Failure ''no space left on device''))\<rparr>"

definition teardown_fault :: faults where
  "teardown_fault =
     no_faults\<lparr>run_error := (\<lambda>c. Some (Failure ''exit status 1'')),
               removeAll_error := (\<lambda>p. Some (Failure ''permission denied''))\<rparr>"

section \<open>Properties\<close>

subsection \<open>The library functions on examples\<close>

lemma sanitizeImage_plain: "sanitizeImage ''repo/img:tag'' = ''repo/img:tag''"
  by code_simp

lemma path_examples:
  "path_Join ''/tmp/x'' ''docker-daemon.json'' = ''/tmp/x/docker-daemon.json''"
  "path_Join ''/work'' [] = ''/work''"
  "path_Join ''/work/'' ''a/../b/./c'' = ''/work/b/c''"
  "path_Join ''a'' ''../../b'' = ''../b''"
  "path_Join ''/'' ''../x'' = ''/x''"
  "path_Join [] ''x'' = ''x''"
  "path_Join ''.'' [] = ''.''"
  "strconv_Itoa 4 = ''4''" "strconv_Itoa 120 = ''120''" "strconv_Itoa (-35) = ''-35''"
  "strconv_Itoa 0 = ''0''"
  "sort_Strings [''b:2'', ''a:1''] = [''a:1'', ''b:2'']"
  "sort_Strings [''ab'', ''a'', ''B'', ''a:''] = [''B'', ''a'', ''a:'', ''ab'']"
  by code_simp+

subsection \<open>The image sanitiser\<close>

text \<open>The leftmost-first match of the image pattern is the direct one.\<close>

lemma hd_concat_map:
  "xs \<noteq> [] \<Longrightarrow> f (hd xs) \<noteq> [] \<Longrightarrow> hd (concat (map f xs)) = hd (f (hd xs))"
  by (cases xs) simp_all

lemma consumed_append [simp]: "consumed (a @ r) r = a"
  by (simp add: consumed_def)

lemma consumed_dropWhile [simp]: "consumed s (dropWhile p s) = takeWhile p s"
  using consumed_append[of "takeWhile p s" "dropWhile p s"] by simp

lemma consumed_drop: "n \<le> length s \<Longrightarrow> consumed s (drop n s) = take n s"
  by (simp add: consumed_def)

lemma consumed_self [simp]: "consumed s s = []"
  by (simp add: consumed_def)

text \<open>A repeated character class: the threads, the longest run first.\<close>

lemma plus_class_Nil:
  "plus_iter (threads (Class p)) n s g = [] \<longleftrightarrow> s = [] \<or> \<not> p (hd s)"
  by (cases n; cases s) auto

lemma plus_class_hd:
  "length s \<le> Suc n \<Longrightarrow> s \<noteq> [] \<Longrightarrow> p (hd s) \<Longrightarrow>
   hd (plus_iter (threads (Class p)) n s g) = (dropWhile p s, g)"
proof (induction n arbitrary: s)
  case 0
  then show ?case by (cases s) auto
next
  case (Suc n)
  then obtain c cs where s: "s = c # cs" "p c" by (cases s) auto
  show ?case
  proof (cases "cs = [] \<or> \<not> p (hd cs)")
    case True
    then have "plus_iter (threads (Class p)) n cs g = []"
      using plus_class_Nil[of p n cs g] by blast
    moreover from True have "dropWhile p cs = cs" by (cases cs) auto
    ultimately show ?thesis using s by simp
  next
    case False
    then have ne: "plus_iter (threads (Class p)) n cs g \<noteq> []"
      using plus_class_Nil[of p n cs g] by blast
    from False Suc.prems s have "hd (plus_iter (threads (Class p)) n cs g) = (dropWhile p cs, g)"
      by (intro Suc.IH) auto
    with ne s show ?thesis by simp
  qed
qed

lemma times_class:
  "times_iter (threads (Class p)) n s g =
     (if n \<le> length s \<and> list_all p (take n s) then [(drop n s, g)] else [])"
proof (induction n arbitrary: s)
  case 0
  then show ?case by simp
next
  case (Suc n)
  then show ?case by (cases s) auto
qed

lemma strip_prefix_append: "strip_prefix l s = Some r \<longleftrightarrow> s = l @ r"
  by (induction l s rule: strip_prefix.induct) auto


lemma threads_Seq:
  "threads (Seq a b) s g = concat (map (\<lambda>(s', g'). threads b s' g') (threads a s g))"
  by simp

lemma threads_Opt: "threads (Opt a) s g = threads a s g @ [(s, g)]"
  by simp

lemma threads_Lit:
  "threads (Lit l) s g = (case strip_prefix l s of None \<Rightarrow> [] | Some r \<Rightarrow> [(r, g)])"
  by simp

lemma threads_Group:
  "threads (Group i a) s g = map (\<lambda>(s', g'). (s', g'(i \<mapsto> consumed s s'))) (threads a s g)"
  by simp

lemma threads_Times_class:
  "threads (Times n (Class p)) s g =
     (if n \<le> length s \<and> list_all p (take n s) then [(drop n s, g)] else [])"
  using times_class[of p n s g] by simp

lemma threads_Plus_class_Nil:
  "threads (Plus (Class p)) s g = [] \<longleftrightarrow> s = [] \<or> \<not> p (hd s)"
  using plus_class_Nil[of p "length s" s g] by simp

lemma threads_Plus_class_hd:
  "s \<noteq> [] \<Longrightarrow> p (hd s) \<Longrightarrow> hd (threads (Plus (Class p)) s g) = (dropWhile p s, g)"
  using plus_class_hd[of s "length s" p g] by simp

lemmas threads_unfold = threads_Seq threads_Opt threads_Lit threads_Group

text \<open>The digest group.\<close>

lemma match_digest_split:
  "r = (if match_digest r = [] then [] else ''@sha256:'' @ match_digest r) @ rest_digest r"
proof (cases "strip_prefix ''@sha256:'' r")
  case None
  then show ?thesis by (simp add: match_digest_def rest_digest_def)
next
  case (Some t)
  then have r: "r = ''@sha256:'' @ t" by (simp only: strip_prefix_append)
  then have "drop 72 r = drop 64 t" by simp
  with Some r show ?thesis
    by (auto simp: match_digest_def rest_digest_def simp del: strip_prefix.simps)
qed

lemma threads_digest:
  "threads (Seq (Lit ''@sha256:'') (Group 3 (Times 64 (Class digest_char)))) r g =
     (if match_digest r = [] then [] else [(rest_digest r, g(3 \<mapsto> match_digest r))])"
proof (cases "strip_prefix ''@sha256:'' r")
  case None
  then show ?thesis by (simp add: match_digest_def threads_unfold del: threads.simps)
next
  case (Some t)
  then have r: "r = ''@sha256:'' @ t" by (simp only: strip_prefix_append)
  then have d: "drop 72 r = drop 64 t" by simp
  have l: "(length (take 64 t) = 64) = (64 \<le> length t)" by auto
  have e: "take 64 t = [] \<longleftrightarrow> t = []" by (cases t) auto
  show ?thesis
    using Some
    by (auto simp add: threads_unfold threads_Times_class match_digest_def rest_digest_def d l e
        consumed_drop simp del: threads.simps strip_prefix.simps)
qed

text \<open>The tag group.\<close>

lemma threads_tag_Nil:
  "threads (Seq (Lit '':'') (Group 2 (Plus (Class tag_char)))) r g = [] \<longleftrightarrow>
     fst (match_tag r) = []"
proof (cases r)
  case Nil
  then show ?thesis by (simp add: threads_unfold match_tag_def del: threads.simps)
next
  case (Cons c t)
  have "takeWhile tag_char t = [] \<longleftrightarrow> t = [] \<or> \<not> tag_char (hd t)"
    by (cases t) auto
  with Cons show ?thesis
    by (auto simp add: threads_unfold threads_Plus_class_Nil match_tag_def
        simp del: threads.simps)
qed

lemma threads_tag_hd:
  assumes "fst (match_tag r) \<noteq> []"
  shows "hd (threads (Seq (Lit '':'') (Group 2 (Plus (Class tag_char)))) r g) =
     (snd (match_tag r), g(2 \<mapsto> fst (match_tag r)))"
proof -
  from assms obtain t where r: "r = CHR '':'' # t" and t: "takeWhile tag_char t \<noteq> []"
    by (cases r) (auto simp: match_tag_def split: if_splits)
  then have ne: "t \<noteq> []" "tag_char (hd t)" by (cases t; auto split: if_splits)+
  then have n: "threads (Plus (Class tag_char)) t g \<noteq> []"
    by (simp add: threads_Plus_class_Nil del: threads.simps)
  have "hd (threads (Group 2 (Plus (Class tag_char))) t g) =
     (dropWhile tag_char t, g(2 \<mapsto> takeWhile tag_char t))"
    using n threads_Plus_class_hd[of t tag_char g] ne
    by (simp add: threads_Group hd_map del: threads.simps)
  with r t show ?thesis
    by (simp add: threads_Seq threads_Lit match_tag_def del: threads.simps)
qed

lemma match_tag_split:
  "r = (if fst (match_tag r) = [] then [] else CHR '':'' # fst (match_tag r)) @ snd (match_tag r)"
  by (cases r) (auto simp: match_tag_def)


text \<open>The two optional groups after the name.\<close>

lemma hd_snoc: "hd (xs @ [y]) = (if xs = [] then y else hd xs)"
  by (cases xs) simp_all

lemma threads_opt_digest_hd:
  "hd (threads (Opt (Seq (Lit ''@sha256:'') (Group 3 (Times 64 (Class digest_char))))) r g) =
     (rest_digest r, if match_digest r = [] then g else g(3 \<mapsto> match_digest r))"
  by (simp add: threads_Opt threads_digest rest_digest_def del: threads.simps)

lemma threads_after_name:
  "threads (Seq (Opt (Seq (Lit '':'') (Group 2 (Plus (Class tag_char)))))
      (Opt (Seq (Lit ''@sha256:'') (Group 3 (Times 64 (Class digest_char)))))) r g \<noteq> [] \<and>
   hd (threads (Seq (Opt (Seq (Lit '':'') (Group 2 (Plus (Class tag_char)))))
      (Opt (Seq (Lit ''@sha256:'') (Group 3 (Times 64 (Class digest_char)))))) r g) =
     after_name r g"
proof -
  let ?T = "Seq (Lit '':'') (Group 2 (Plus (Class tag_char)))"
  let ?D = "Seq (Lit ''@sha256:'') (Group 3 (Times 64 (Class digest_char)))"
  let ?f = "\<lambda>(s', g'). threads (Opt ?D) s' g'"
  have f: "?f x \<noteq> []" for x by (cases x) (simp add: threads_Opt del: threads.simps)
  have xs: "threads (Opt ?T) r g \<noteq> []" by (simp add: threads_Opt del: threads.simps)
  have u: "threads (Seq (Opt ?T) (Opt ?D)) r g = concat (map ?f (threads (Opt ?T) r g))"
    by (rule threads_Seq)
  have ne: "threads (Seq (Opt ?T) (Opt ?D)) r g \<noteq> []"
    unfolding u using xs f by (cases "threads (Opt ?T) r g") auto
  have h: "hd (threads (Seq (Opt ?T) (Opt ?D)) r g) = hd (?f (hd (threads (Opt ?T) r g)))"
    unfolding u by (rule hd_concat_map[OF xs f])
  have t: "hd (threads (Opt ?T) r g) =
     (if fst (match_tag r) = [] then (r, g)
      else (snd (match_tag r), g(2 \<mapsto> fst (match_tag r))))"
    using threads_tag_Nil[of r g] threads_tag_hd[of r g]
    by (simp add: threads_Opt hd_snoc del: threads.simps)
  have r: "fst (match_tag r) = [] \<Longrightarrow> snd (match_tag r) = r"
    by (auto simp: match_tag_def split: list.splits if_splits)
  have "hd (?f (hd (threads (Opt ?T) r g))) = after_name r g"
    unfolding t using r
    by (simp add: threads_opt_digest_hd after_name_def Let_def split_beta del: threads.simps)
  with ne h show ?thesis by simp
qed

text \<open>The whole pattern at a position.\<close>

lemma threads_imagePattern_Nil:
  "threads imagePattern s g = [] \<longleftrightarrow> s = [] \<or> \<not> name_char (hd s)"
proof -
  let ?R = "Seq (Opt (Seq (Lit '':'') (Group 2 (Plus (Class tag_char)))))
      (Opt (Seq (Lit ''@sha256:'') (Group 3 (Times 64 (Class digest_char)))))"
  have "threads (Group 1 (Plus (Class name_char))) s g = [] \<longleftrightarrow> s = [] \<or> \<not> name_char (hd s)"
    using threads_Plus_class_Nil[of name_char s g] by (simp add: threads_Group del: threads.simps)
  moreover have "(\<lambda>(s', g'). threads ?R s' g') x \<noteq> []" for x
    using threads_after_name by (cases x) simp
  moreover have "threads imagePattern s g =
     concat (map (\<lambda>(s', g'). threads ?R s' g') (threads (Group 1 (Plus (Class name_char))) s g))"
    unfolding imagePattern_def by (rule threads_Seq)
  ultimately show ?thesis
    by (cases "threads (Group 1 (Plus (Class name_char))) s g") (auto simp del: threads.simps)
qed

lemma threads_imagePattern_hd:
  assumes "s \<noteq> []" "name_char (hd s)"
  shows "hd (threads imagePattern s g) =
     after_name (dropWhile name_char s) (g(1 \<mapsto> takeWhile name_char s))"
proof -
  let ?R = "Seq (Opt (Seq (Lit '':'') (Group 2 (Plus (Class tag_char)))))
      (Opt (Seq (Lit ''@sha256:'') (Group 3 (Times 64 (Class digest_char)))))"
  let ?f = "\<lambda>(s', g'). threads ?R s' g'"
  have f: "?f x \<noteq> []" for x using threads_after_name by (cases x) simp
  have n: "threads (Plus (Class name_char)) s g \<noteq> []"
    using assms threads_Plus_class_Nil[of name_char s g] by blast
  then have xs: "threads (Group 1 (Plus (Class name_char))) s g \<noteq> []"
    by (simp add: threads_Group del: threads.simps)
  have h1: "hd (threads (Group 1 (Plus (Class name_char))) s g) =
     (dropWhile name_char s, g(1 \<mapsto> takeWhile name_char s))"
    using n threads_Plus_class_hd[of s name_char g] assms
    by (simp add: threads_Group hd_map del: threads.simps)
  have u: "threads imagePattern s g =
     concat (map ?f (threads (Group 1 (Plus (Class name_char))) s g))"
    unfolding imagePattern_def by (rule threads_Seq)
  have "hd (threads imagePattern s g) =
     hd (?f (hd (threads (Group 1 (Plus (Class name_char))) s g)))"
    unfolding u by (rule hd_concat_map[OF xs f])
  then show ?thesis
    unfolding h1 using threads_after_name by simp
qed


text \<open>The leftmost match and the submatch slice.\<close>

lemma after_name_split:
  "r = (if fst (match_tag r) = [] then [] else CHR '':'' # fst (match_tag r)) @
       (if match_digest (snd (match_tag r)) = [] then []
        else ''@sha256:'' @ match_digest (snd (match_tag r))) @
       fst (after_name r g)"
proof -
  have "fst (after_name r g) = rest_digest (snd (match_tag r))"
    by (simp add: after_name_def Let_def split_beta)
  then show ?thesis
    using match_tag_split[of r] match_digest_split[of "snd (match_tag r)"]
    by (metis append.assoc)
qed

lemma submatches_at:
  assumes "s \<noteq> []" "name_char (hd s)"
  shows "(case threads imagePattern s Map.empty of
            [] \<Rightarrow> x
          | (r, g) # _ \<Rightarrow>
              consumed s r #
              map (\<lambda>i. case g i of None \<Rightarrow> [] | Some y \<Rightarrow> y) [1..<Suc (NumSubexp imagePattern)]) =
         match_at s"
proof -
  define th where "th = threads imagePattern s Map.empty"
  define r1 where "r1 = dropWhile name_char s"
  have ne: "th \<noteq> []" using assms threads_imagePattern_Nil[of s Map.empty] by (simp add: th_def)
  have h: "hd th = after_name r1 [1 \<mapsto> takeWhile name_char s]"
    using threads_imagePattern_hd[OF assms, of Map.empty] by (simp add: th_def r1_def)
  obtain r g where rg: "hd th = (r, g)" by (metis surj_pair)
  have n3: "[1..<Suc (NumSubexp imagePattern)] = [1, 2, 3]"
    by (simp add: imagePattern_def upt_rec)
  have s: "s = takeWhile name_char s @ r1" by (simp add: r1_def)
  have ar: "after_name r1 [1 \<mapsto> takeWhile name_char s] = (r, g)"
    using h rg by (rule trans[OF sym])
  then have fr: "fst (after_name r1 [1 \<mapsto> takeWhile name_char s]) = r"
    by (rule arg_cong[where f = fst, THEN trans]) simp
  have r1: "r1 = (if fst (match_tag r1) = [] then [] else CHR '':'' # fst (match_tag r1)) @
       (if match_digest (snd (match_tag r1)) = [] then []
        else ''@sha256:'' @ match_digest (snd (match_tag r1))) @ r"
    using after_name_split[of r1 "[1 \<mapsto> takeWhile name_char s]"] unfolding fr .
  have c: "consumed s r = takeWhile name_char s @
       (if fst (match_tag r1) = [] then [] else CHR '':'' # fst (match_tag r1)) @
       (if match_digest (snd (match_tag r1)) = [] then []
        else ''@sha256:'' @ match_digest (snd (match_tag r1)))"
    using s r1 consumed_append by (metis append.assoc)
  have g: "g = (let tag = fst (match_tag r1); digest = match_digest (snd (match_tag r1));
                    g1 = (if tag = [] then [1 \<mapsto> takeWhile name_char s]
                          else [1 \<mapsto> takeWhile name_char s, 2 \<mapsto> tag])
                in if digest = [] then g1 else g1(3 \<mapsto> digest))"
    using ar by (auto simp add: after_name_def Let_def split_beta)
  have "(case th of [] \<Rightarrow> x
          | (r, g) # _ \<Rightarrow>
              consumed s r #
              map (\<lambda>i. case g i of None \<Rightarrow> [] | Some y \<Rightarrow> y) [1..<Suc (NumSubexp imagePattern)]) =
        consumed s r # map (\<lambda>i. case g i of None \<Rightarrow> [] | Some y \<Rightarrow> y) [1, 2, 3]"
    using ne rg unfolding n3 by (cases th) auto
  also have "\<dots> = match_at s"
    unfolding c g
    by (simp add: match_at_def Let_def split_beta r1_def)
  finally show ?thesis unfolding th_def .
qed

lemma leftmost_first_match:
  "(case leftmost imagePattern s of
      None \<Rightarrow> []
    | Some (whole, g) \<Rightarrow>
        whole # map (\<lambda>i. case g i of None \<Rightarrow> [] | Some y \<Rightarrow> y)
                  [1..<Suc (NumSubexp imagePattern)]) = first_match s"
proof (induction s)
  case Nil
  then show ?case using threads_imagePattern_Nil[of "[]" Map.empty] by simp
next
  case (Cons c cs)
  show ?case
  proof (cases "name_char c")
    case True
    then have ne: "threads imagePattern (c # cs) Map.empty \<noteq> []"
      using threads_imagePattern_Nil[of "c # cs" Map.empty] by simp
    from submatches_at[of "c # cs" "[]"] True
    show ?thesis using ne
      by (cases "threads imagePattern (c # cs) Map.empty") (auto simp: split_beta)
  next
    case False
    then have "threads imagePattern (c # cs) Map.empty = []"
      using threads_imagePattern_Nil[of "c # cs" Map.empty] by simp
    with False Cons show ?thesis by simp
  qed
qed

theorem FindStringSubmatch_imagePattern:
  "FindStringSubmatch imagePattern s = first_match s"
  unfolding FindStringSubmatch_def by (rule leftmost_first_match)


text \<open>\<^verbatim>\<open>sanitizeImage\<close> in terms of the direct match.\<close>

lemma first_match_eq:
  "first_match s =
     (if dropWhile (\<lambda>c. \<not> name_char c) s = [] then []
      else match_at (dropWhile (\<lambda>c. \<not> name_char c) s))"
  by (induction s) auto

lemma length_match_at: "length (match_at s) = 4"
  by (simp add: match_at_def Let_def split: prod.splits)

lemma match_at_1: "match_at s ! Suc 0 = takeWhile name_char s"
  by (simp add: match_at_def Let_def split: prod.splits)

lemma match_at_2: "match_at s ! 2 = fst (match_tag (dropWhile name_char s))"
  by (simp add: match_at_def Let_def split: prod.splits)

lemma sanitizeImage_eq:
  "sanitizeImage s =
     (let s' = dropWhile (\<lambda>c. \<not> name_char c) s;
          name = takeWhile name_char s';
          tag = fst (match_tag (dropWhile name_char s'))
      in if s' = [] then s else if tag = [] then name else name @ '':'' @ tag)"
  by (simp add: sanitizeImage_def FindStringSubmatch_imagePattern first_match_eq Let_def
      length_match_at match_at_1 match_at_2)

lemma match_tag_no_at: "CHR ''@'' \<notin> set (fst (match_tag r))"
  by (auto simp: match_tag_def tag_char_def split: list.splits dest: set_takeWhileD)

lemma name_no_at: "CHR ''@'' \<notin> set (takeWhile name_char r)"
  by (auto simp: name_char_def dest: set_takeWhileD)

lemma sanitizeImage_no_name:
  assumes "\<forall>c\<in>set s. \<not> name_char c"
  shows "sanitizeImage s = s"
  using assms by (simp add: sanitizeImage_eq)

lemma sanitizeImage_at:
  assumes "CHR ''@'' \<in> set (sanitizeImage s)"
  shows "\<forall>c\<in>set s. \<not> name_char c"
proof (rule ccontr)
  assume "\<not> (\<forall>c\<in>set s. \<not> name_char c)"
  then have ne: "dropWhile (\<lambda>c. \<not> name_char c) s \<noteq> []"
    by simp
  with assms show False
    using match_tag_no_at name_no_at
    by (auto simp: sanitizeImage_eq Let_def split: if_splits)
qed

lemma sanitize_name:
  assumes "n \<noteq> []" "\<forall>c\<in>set n. name_char c"
  shows "sanitizeImage n = n"
proof -
  from assms have d: "dropWhile (\<lambda>c. \<not> name_char c) n = n"
    by (cases n) auto
  from assms have t: "takeWhile name_char n = n" "dropWhile name_char n = []"
    by simp_all
  show ?thesis using assms(1)
    by (simp add: sanitizeImage_eq d t match_tag_def)
qed

lemma sanitize_name_rest:
  assumes "n \<noteq> []" "\<forall>c\<in>set n. name_char c" "\<not> name_char x"
  shows "sanitizeImage (n @ x # r) =
     (if fst (match_tag (x # r)) = [] then n else n @ '':'' @ fst (match_tag (x # r)))"
proof -
  from assms have d: "dropWhile (\<lambda>c. \<not> name_char c) (n @ x # r) = n @ x # r"
    by (cases n) auto
  show ?thesis using assms
    by (simp add: sanitizeImage_eq d Let_def)
qed

lemma match_tag_tag:
  assumes "t \<noteq> []" "\<forall>c\<in>set t. tag_char c" "r = [] \<or> hd r = CHR ''@''"
  shows "fst (match_tag (CHR '':'' # t @ r)) = t"
proof -
  from assms(2,3) have "takeWhile tag_char (t @ r) = t"
    by (cases r) (auto simp: tag_char_def)
  with assms(1) show ?thesis by (simp add: match_tag_def)
qed

lemma sanitize_name_tag:
  assumes "n \<noteq> []" "\<forall>c\<in>set n. name_char c" "t \<noteq> []" "\<forall>c\<in>set t. tag_char c"
    "r = [] \<or> hd r = CHR ''@''"
  shows "sanitizeImage (n @ '':'' @ t @ r) = n @ '':'' @ t"
  using sanitize_name_rest[OF assms(1,2), of "CHR '':''" "t @ r"]
    match_tag_tag[OF assms(3,4,5)] assms(3)
  by (simp add: name_char_def)

lemma sanitize_name_digest:
  assumes "n \<noteq> []" "\<forall>c\<in>set n. name_char c"
  shows "sanitizeImage (n @ CHR ''@'' # r) = n"
  using sanitize_name_rest[OF assms, of "CHR ''@''" r]
  by (simp add: name_char_def match_tag_def)

text \<open>The result on a string with a name character: a name, or a name and a tag.\<close>

lemma sanitizeImage_result:
  assumes "\<not> (\<forall>c\<in>set s. \<not> name_char c)"
  shows "\<exists>n t. is_name n \<and> (t = [] \<or> is_tag t) \<and> sanitizeImage s = image_reference n t []"
proof -
  define s' where "s' = dropWhile (\<lambda>c. \<not> name_char c) s"
  define n where "n = takeWhile name_char s'"
  define t where "t = fst (match_tag (dropWhile name_char s'))"
  from assms have ne: "s' \<noteq> []" by (simp add: s'_def)
  moreover have "name_char (hd s')"
    using ne hd_dropWhile[of "\<lambda>c. \<not> name_char c" s] by (simp add: s'_def)
  ultimately have "n \<noteq> []" by (cases s') (auto simp: n_def)
  moreover have "\<forall>c\<in>set n. name_char c" by (auto simp: n_def dest: set_takeWhileD)
  ultimately have n: "is_name n" by (simp add: is_name_def list_all_iff)
  have "\<forall>c\<in>set t. tag_char c"
    by (auto simp: t_def match_tag_def split: list.splits if_splits dest: set_takeWhileD)
  then have t: "t = [] \<or> is_tag t" by (simp add: is_tag_def list_all_iff)
  have "sanitizeImage s = image_reference n t []"
    using ne by (auto simp: sanitizeImage_eq Let_def s'_def n_def t_def image_reference_def)
  with n t show ?thesis by blast
qed

lemma sanitizeImage_reference:
  assumes "is_name n" "t = [] \<or> is_tag t" "d = [] \<or> hd d \<noteq> CHR ''@''"
  shows "sanitizeImage (image_reference n t d) = image_reference n t []"
proof -
  from assms(1) have n: "n \<noteq> []" "\<forall>c\<in>set n. name_char c"
    by (simp_all add: is_name_def list_all_iff)
  show ?thesis
  proof (cases "t = []")
    case True
    then show ?thesis
      using sanitize_name[OF n] sanitize_name_digest[OF n]
      by (simp add: image_reference_def)
  next
    case False
    with assms(2) have t: "t \<noteq> []" "\<forall>c\<in>set t. tag_char c"
      by (simp_all add: is_tag_def list_all_iff)
    show ?thesis
      using sanitize_name_tag[OF n t, of "[]"]
        sanitize_name_tag[OF n t, of "''@sha256:'' @ d"] False
      by (simp add: image_reference_def)
  qed
qed

lemma sanitizeImage_idem: "sanitizeImage (sanitizeImage s) = sanitizeImage s"
proof (cases "\<forall>c\<in>set s. \<not> name_char c")
  case True
  then show ?thesis by (simp add: sanitizeImage_no_name)
next
  case False
  from sanitizeImage_result[OF False] obtain n t where
    "is_name n" "t = [] \<or> is_tag t" "sanitizeImage s = image_reference n t []"
    by blast
  then show ?thesis using sanitizeImage_reference[of n t "[]"] by simp
qed



text \<open>
  Claim C7. \<^verbatim>\<open>sanitizeImage\<close> is idempotent: applied twice it gives what it gives
  applied once, for every string. And for every string, its result does not contain the
  substring \<^verbatim>\<open>@sha256:\<close>.
\<close>

theorem sanitizeImage_idempotent_no_digest:
  "sanitizeImage (sanitizeImage s) = sanitizeImage s \<and>
   \<not> (\<exists>ps ss. sanitizeImage s = ps @ ''@sha256:'' @ ss)"
proof
  show "sanitizeImage (sanitizeImage s) = sanitizeImage s" by (rule sanitizeImage_idem)
  show "\<not> (\<exists>ps ss. sanitizeImage s = ps @ ''@sha256:'' @ ss)"
  proof
    assume "\<exists>ps ss. sanitizeImage s = ps @ ''@sha256:'' @ ss"
    then obtain ps ss where e: "sanitizeImage s = ps @ ''@sha256:'' @ ss" by blast
    then have "CHR ''@'' \<in> set (sanitizeImage s)" by simp
    then have nn: "\<forall>c\<in>set s. \<not> name_char c" by (rule sanitizeImage_at)
    then have "sanitizeImage s = s" by (rule sanitizeImage_no_name)
    with e have "CHR ''s'' \<in> set s" by simp
    with nn show False by (auto simp: name_char_def)
  qed
qed

theorem sanitizeImage_idempotent_no_digest_witness:
  "sanitizeImage (sanitizeImage ''repo/img:tag@sha256:0123456789abcdef0123456789abcdef0123456789abcdef0123456789abcdef'') =
     sanitizeImage ''repo/img:tag@sha256:0123456789abcdef0123456789abcdef0123456789abcdef0123456789abcdef'' \<and>
   \<not> (\<exists>ps ss. sanitizeImage ''repo/img:tag@sha256:0123456789abcdef0123456789abcdef0123456789abcdef0123456789abcdef'' = ps @ ''@sha256:'' @ ss) \<and>
   sanitizeImage ''repo/img:tag@sha256:0123456789abcdef0123456789abcdef0123456789abcdef0123456789abcdef'' = ''repo/img:tag''"
proof -
  have "sanitizeImage ''repo/img:tag@sha256:0123456789abcdef0123456789abcdef0123456789abcdef0123456789abcdef'' = ''repo/img:tag''"
    by code_simp
  with sanitizeImage_idempotent_no_digest
         [of "''repo/img:tag@sha256:0123456789abcdef0123456789abcdef0123456789abcdef0123456789abcdef''"]
  show ?thesis by blast
qed




subsection \<open>The copy-files flags\<close>

lemma sort_Strings_perm:
  "mset cs = mset xs \<Longrightarrow> sort_Strings cs = sort_Strings xs"
  unfolding sort_Strings_def by (rule properties_for_sort) simp_all

lemma set_copyfiles: "set (copyfiles s d) = set (collected s d)"
  by (simp add: copyfiles_def sort_Strings_def)

text \<open>
  Claim C6. For every start-up script path and daemon configuration file, each
  possibly empty: the copy-files flags list the pairs in sorted order, whatever the order
  in which the pairs were collected (sorting any arrangement \<open>cs\<close> of the collected
  pairs gives the same list); the pairs are the script copied to its own path and the
  daemon configuration copied to \<^verbatim>\<open>/etc/docker/daemon.json\<close>; and no flag is
  emitted when there is no file to copy.
\<close>

theorem firecrackerCopyfileFlags_sorted:
  "firecrackerCopyfileFlags s d =
     (if s = [] \<and> d = [] then []
      else [''--copy-files'', strings_Join (copyfiles s d) '','']) \<and>
   sorted (copyfiles s d) \<and>
   mset (copyfiles s d) = mset (collected s d) \<and>
   (mset cs = mset (collected s d) \<longrightarrow> sort_Strings cs = copyfiles s d) \<and>
   set (copyfiles s d) =
     (if s = [] then {} else {s @ '':'' @ s}) \<union>
     (if d = [] then {} else {d @ '':/etc/docker/daemon.json''})"
proof (intro conjI)
  have "(collected s d = []) = (s = [] \<and> d = [])"
    by (simp add: collected_def)
  moreover have "(copyfiles s d = []) = (collected s d = [])"
    unfolding copyfiles_def sort_Strings_def by (metis mset_sort mset_zero_iff)
  ultimately show "firecrackerCopyfileFlags s d =
     (if s = [] \<and> d = [] then []
      else [''--copy-files'', strings_Join (copyfiles s d) '',''])"
    by (simp add: firecrackerCopyfileFlags_def intersperse_def)
  show "sorted (copyfiles s d)" by (simp add: copyfiles_def sort_Strings_def)
  show "mset (copyfiles s d) = mset (collected s d)"
    by (simp add: copyfiles_def sort_Strings_def)
  show "mset cs = mset (collected s d) \<longrightarrow> sort_Strings cs = copyfiles s d"
    unfolding copyfiles_def using sort_Strings_perm by blast
  show "set (copyfiles s d) =
     (if s = [] then {} else {s @ '':'' @ s}) \<union>
     (if d = [] then {} else {d @ '':/etc/docker/daemon.json''})"
    by (simp add: set_copyfiles collected_def)
qed

theorem firecrackerCopyfileFlags_sorted_witness:
  "collected ''/vm-startup.sh'' ''/tmp/fc/docker-daemon.json'' =
     [''/vm-startup.sh:/vm-startup.sh'', ''/tmp/fc/docker-daemon.json:/etc/docker/daemon.json''] \<and>
   copyfiles ''/vm-startup.sh'' ''/tmp/fc/docker-daemon.json'' =
     [''/tmp/fc/docker-daemon.json:/etc/docker/daemon.json'', ''/vm-startup.sh:/vm-startup.sh''] \<and>
   sort_Strings
     [''/tmp/fc/docker-daemon.json:/etc/docker/daemon.json'', ''/vm-startup.sh:/vm-startup.sh''] =
     copyfiles ''/vm-startup.sh'' ''/tmp/fc/docker-daemon.json'' \<and>
   firecrackerCopyfileFlags ''/vm-startup.sh'' ''/tmp/fc/docker-daemon.json'' =
     [''--copy-files'',
      ''/tmp/fc/docker-daemon.json:/etc/docker/daemon.json,/vm-startup.sh:/vm-startup.sh''] \<and>
   firecrackerCopyfileFlags [] [] = []"
proof -
  have c: "collected ''/vm-startup.sh'' ''/tmp/fc/docker-daemon.json'' =
     [''/vm-startup.sh:/vm-startup.sh'', ''/tmp/fc/docker-daemon.json:/etc/docker/daemon.json'']"
    by (simp add: collected_def)
  have k: "copyfiles ''/vm-startup.sh'' ''/tmp/fc/docker-daemon.json'' =
     [''/tmp/fc/docker-daemon.json:/etc/docker/daemon.json'', ''/vm-startup.sh:/vm-startup.sh'']"
    by code_simp
  have m: "mset [''/tmp/fc/docker-daemon.json:/etc/docker/daemon.json'',
                 ''/vm-startup.sh:/vm-startup.sh''] =
           mset (collected ''/vm-startup.sh'' ''/tmp/fc/docker-daemon.json'')"
    unfolding c by simp
  note w1 = firecrackerCopyfileFlags_sorted
    [of "''/vm-startup.sh''" "''/tmp/fc/docker-daemon.json''"
        "[''/tmp/fc/docker-daemon.json:/etc/docker/daemon.json'', ''/vm-startup.sh:/vm-startup.sh'']"]
  note w2 = firecrackerCopyfileFlags_sorted [of "[]" "[]" "[]"]
  from w1 m have "sort_Strings
     [''/tmp/fc/docker-daemon.json:/etc/docker/daemon.json'', ''/vm-startup.sh:/vm-startup.sh''] =
     copyfiles ''/vm-startup.sh'' ''/tmp/fc/docker-daemon.json''"
    by blast
  moreover from w1 have "firecrackerCopyfileFlags ''/vm-startup.sh'' ''/tmp/fc/docker-daemon.json'' =
     [''--copy-files'',
      ''/tmp/fc/docker-daemon.json:/etc/docker/daemon.json,/vm-startup.sh:/vm-startup.sh'']"
    unfolding k by simp
  moreover from w2 have "firecrackerCopyfileFlags [] [] = []" by simp
  ultimately show ?thesis using c k by blast
qed

subsection \<open>The start invocation\<close>




subsection \<open>The Firecracker command\<close>

text \<open>
  Claim C1, as amended. For every specification whose formatted inner command carries
  both environment assignments and a non-empty working directory, the single string
  handed to \<^verbatim>\<open>ignite exec\<close> places the \<^verbatim>\<open>cd <dir> &&\<close> clause first, then
  the quoted environment assignments, then the quoted command tokens, in that fixed
  order. This holds for every quoting.
\<close>

theorem formatFirecrackerCommand_order:
  "(let raw = formatRawOrDockerCommand h spec firecrackerContainerDir options in
    Env raw \<noteq> [] \<and> Dir raw \<noteq> [] \<longrightarrow>
    Command (formatFirecrackerCommand h spec vm options) =
      [''ignite'', ''exec'', vm, ''--'',
       ''cd '' @ Dir raw @ '' && '' @
       strings_Join (quoteEnv h (Env raw)) '' '' @ '' '' @
       shellquote_Join h (Command raw)])"
  by (simp add: formatFirecrackerCommand_def Let_def)

lemma example_raw:
  "formatRawOrDockerCommand plain_helpers example_spec firecrackerContainerDir example_options =
     \<lparr>Key = ''step.1'', Command = [''ls'', ''-la''], Dir = ''/work/repo'',
      Env = [''A=1'', ''B=2''], Operation = None\<rparr>"
proof -
  have "path_Join ''/work'' ''repo'' = ''/work/repo''" by code_simp
  then show ?thesis
    by (simp add: formatRawOrDockerCommand_def example_spec_def firecrackerContainerDir_def)
qed

lemma plain_helpers_simps:
  "shellquote_Join plain_helpers ws = strings_Join ws '' ''"
  "quoteEnv plain_helpers env = env"
  by (simp_all add: plain_helpers_def)

theorem formatFirecrackerCommand_order_witness:
  "Env (formatRawOrDockerCommand plain_helpers example_spec firecrackerContainerDir
          example_options) \<noteq> [] \<and>
   Dir (formatRawOrDockerCommand plain_helpers example_spec firecrackerContainerDir
          example_options) \<noteq> [] \<and>
   Command (formatFirecrackerCommand plain_helpers example_spec ''vm'' example_options) =
     [''ignite'', ''exec'', ''vm'', ''--'', ''cd /work/repo && A=1 B=2 ls -la'']"
  using formatFirecrackerCommand_order [of plain_helpers example_spec example_options "''vm''"]
  by (simp add: example_raw Let_def plain_helpers_simps)

text \<open>
  Claim C1 as it is stated, with the environment assignments before the
  \<^verbatim>\<open>cd\<close> clause, fails: the string begins with the \<^verbatim>\<open>cd\<close> clause.
\<close>

theorem formatFirecrackerCommand_env_first_counterexample:
  "(let raw = formatRawOrDockerCommand plain_helpers example_spec firecrackerContainerDir
                example_options
    in Env raw \<noteq> [] \<and> Dir raw \<noteq> [] \<and>
       Command (formatFirecrackerCommand plain_helpers example_spec ''vm'' example_options) =
         [''ignite'', ''exec'', ''vm'', ''--'', ''cd /work/repo && A=1 B=2 ls -la''] \<and>
       Command (formatFirecrackerCommand plain_helpers example_spec ''vm'' example_options) \<noteq>
         [''ignite'', ''exec'', ''vm'', ''--'',
          strings_Join (quoteEnv plain_helpers (Env raw)) '' '' @ '' '' @
          ''cd '' @ Dir raw @ '' && '' @
          shellquote_Join plain_helpers (Command raw)])"
  by (simp add: formatFirecrackerCommand_def example_raw Let_def plain_helpers_simps)

subsection \<open>The set-up of the virtual machine\<close>

lemma errors_Append_None [simp]: "errors_Append None None = None"
  by (simp add: errors_Append_def)

lemma errors_Append_eq_None: "errors_Append a b = None \<longleftrightarrow> a = None \<and> b = None"
  by (simp add: errors_Append_def)

lemma newDockerDaemonConfig_create_fails:
  "create_error fl (path_Join tmpDir dockerDaemonConfigFilename) = Some e \<Longrightarrow>
   newDockerDaemonConfig fl tmpDir m w =
     (([], Some (Wrap e ''creating temp file for docker daemon config'')), w)"
  by (simp add: newDockerDaemonConfig_def os_Create_def Let_def)

lemma newDockerDaemonConfig_created:
  "create_error fl (path_Join tmpDir dockerDaemonConfigFilename) = None \<Longrightarrow>
   newDockerDaemonConfig fl tmpDir m w =
     (let p = path_Join tmpDir dockerDaemonConfigFilename in
      ((p, errors_Append (write_error fl p) (close_error fl p)),
       w\<lparr>files := (files w)(p \<mapsto>
          (case write_error fl p of
             None \<Rightarrow> ''{\"registry-mirrors\":['' @ json_string m @ '']}''
           | Some e \<Rightarrow> []))\<rparr>))"
  by (simp add: newDockerDaemonConfig_def os_Create_def os_WriteFile_def json_Marshal_def Let_def 
       split: option.splits)


lemma runCommand_simps:
  "fst (RunCommand fl c w) = run_error fl c"
  "snd (RunCommand fl c w) = w\<lparr>invocations := invocations w @ [c]\<rparr>"
  by (simp_all add: RunCommand_def runCommand_def)

lemma RunCommand_eq:
  "RunCommand fl c w = (run_error fl c, w\<lparr>invocations := invocations w @ [c]\<rparr>)"
  by (simp add: RunCommand_def runCommand_def)

text \<open>Set-up without a registry mirror.\<close>

lemma setupFirecracker_no_mirror:
  assumes "DockerRegistryMirrorAddress (FirecrackerOptions options) = []"
  shows "setupFirecracker fl vm dev tmpDir options ops w =
     (case run_error fl (startCommand vm dev [] options ops) of
        Some err \<Rightarrow>
          (Some (Wrap err ''failed to start firecracker vm''),
           w\<lparr>invocations := invocations w @ [startCommand vm dev [] options ops]\<rparr>)
      | None \<Rightarrow>
          if VMStartupScriptPath (FirecrackerOptions options) \<noteq> [] then
            (case run_error fl (startupScriptCommand vm options ops) of
               Some err \<Rightarrow> Some (Wrap err ''failed to run startup script'')
             | None \<Rightarrow> None,
             w\<lparr>invocations := invocations w @
                [startCommand vm dev [] options ops, startupScriptCommand vm options ops]\<rparr>)
          else (None, w\<lparr>invocations := invocations w @ [startCommand vm dev [] options ops]\<rparr>))"
  using assms by (simp add: setupFirecracker_def RunCommand_eq split: option.splits)

text \<open>Set-up after the daemon configuration was written and closed.\<close>

lemma setupFirecracker_config_failure:
  assumes "DockerRegistryMirrorAddress (FirecrackerOptions options) \<noteq> []"
    and "newDockerDaemonConfig fl tmpDir
           (DockerRegistryMirrorAddress (FirecrackerOptions options)) w = ((f, Some e), w1)"
  shows "setupFirecracker fl vm dev tmpDir options ops w = (Some e, w1)"
  using assms by (simp add: setupFirecracker_def)


lemma newDockerDaemonConfig_frame:
  "invocations (snd (newDockerDaemonConfig fl tmpDir m w)) = invocations w"
  by (cases "create_error fl (path_Join tmpDir dockerDaemonConfigFilename)")
     (simp_all add: newDockerDaemonConfig_created newDockerDaemonConfig_create_fails Let_def)









text \<open>
  A failure of the start invocation or of the start-up script aborts the set-up with the
  error wrapped in the step's message; nothing is invoked afterwards, so the set-up
  attempts no clean-up and a virtual machine that was started is left running. A failure
  to create the daemon configuration file is wrapped as well, and aborts the set-up before
  anything is invoked.
\<close>

lemma setupFirecracker_create_failure:
  assumes "DockerRegistryMirrorAddress (FirecrackerOptions options) \<noteq> []"
    and "create_error fl (path_Join tmpDir dockerDaemonConfigFilename) = Some e"
  shows "setupFirecracker fl vm dev tmpDir options ops w =
     (Some (Wrap e ''creating temp file for docker daemon config''), w)"
  using assms
  by (simp add: setupFirecracker_config_failure
      [OF assms(1) newDockerDaemonConfig_create_fails [OF assms(2)]])

lemma setupFirecracker_start_failure:
  assumes "DockerRegistryMirrorAddress (FirecrackerOptions options) = []"
    and "run_error fl (startCommand vm dev [] options ops) = Some e"
  shows "setupFirecracker fl vm dev tmpDir options ops w =
     (Some (Wrap e ''failed to start firecracker vm''),
      w\<lparr>invocations := invocations w @ [startCommand vm dev [] options ops]\<rparr>)"
  using assms by (simp add: setupFirecracker_no_mirror)

lemma setupFirecracker_script_failure:
  assumes "DockerRegistryMirrorAddress (FirecrackerOptions options) = []"
    and "VMStartupScriptPath (FirecrackerOptions options) \<noteq> []"
    and "run_error fl (startCommand vm dev [] options ops) = None"
    and "run_error fl (startupScriptCommand vm options ops) = Some e"
  shows "setupFirecracker fl vm dev tmpDir options ops w =
     (Some (Wrap e ''failed to run startup script''),
      w\<lparr>invocations := invocations w @
         [startCommand vm dev [] options ops, startupScriptCommand vm options ops]\<rparr>)"
  using assms by (simp add: setupFirecracker_no_mirror)

text \<open>
  A failure to write or to close the daemon configuration file aborts the set-up too, but
  its error is passed on as it is, with no message of the step.
\<close>

lemma setupFirecracker_write_failure:
  assumes "DockerRegistryMirrorAddress (FirecrackerOptions options) \<noteq> []"
    and "create_error fl (path_Join tmpDir dockerDaemonConfigFilename) = None"
    and "write_error fl (path_Join tmpDir dockerDaemonConfigFilename) = Some e"
  shows "fst (setupFirecracker fl vm dev tmpDir options ops w) =
     Some (Multi (errors_of (Some e) @
       errors_of (close_error fl (path_Join tmpDir dockerDaemonConfigFilename))))"
    and "invocations (snd (setupFirecracker fl vm dev tmpDir options ops w)) = invocations w"
proof -
  obtain w1 where n: "newDockerDaemonConfig fl tmpDir
       (DockerRegistryMirrorAddress (FirecrackerOptions options)) w =
       ((path_Join tmpDir dockerDaemonConfigFilename,
         Some (Multi (errors_of (Some e) @
           errors_of (close_error fl (path_Join tmpDir dockerDaemonConfigFilename))))), w1)"
    by (simp add: newDockerDaemonConfig_created[OF assms(2)] assms(3) Let_def errors_Append_def)
  have i: "invocations w1 = invocations w"
    using newDockerDaemonConfig_frame[of fl tmpDir
        "DockerRegistryMirrorAddress (FirecrackerOptions options)" w] n by simp
  show "fst (setupFirecracker fl vm dev tmpDir options ops w) =
     Some (Multi (errors_of (Some e) @
       errors_of (close_error fl (path_Join tmpDir dockerDaemonConfigFilename))))"
    by (simp add: setupFirecracker_config_failure[OF assms(1) n])
  show "invocations (snd (setupFirecracker fl vm dev tmpDir options ops w)) = invocations w"
    by (simp add: setupFirecracker_config_failure[OF assms(1) n] i)
qed

text \<open>
  Claim C4 at a failing input: a registry mirror is configured, the daemon configuration
  file is created, and writing it fails. The set-up aborts, nothing is invoked, and the
  error it returns is the error of the write, carrying no message of the failing step.
\<close>

theorem setupFirecracker_write_failure_unwrapped:
  "fst (setupFirecracker write_fault ''vm'' ''/dev/loop0'' ''/tmp/executor-firecracker-runner1''
          example_options example_operations empty_host) =
     Some (Multi [Failure ''no space left on device'']) \<and>
   \<not> is_wrapped (Multi [Failure ''no space left on device'']) \<and>
   invocations (snd (setupFirecracker write_fault ''vm'' ''/dev/loop0''
          ''/tmp/executor-firecracker-runner1'' example_options example_operations
          empty_host)) = []"
proof -
  have m: "DockerRegistryMirrorAddress (FirecrackerOptions example_options) \<noteq> []"
    by (simp add: example_options_def)
  have e: "create_error write_fault q = None"
    "write_error write_fault q = Some (Failure ''no space left on device'')"
    "close_error write_fault q = None" for q
    by (simp_all add: write_fault_def no_faults_def)
  show ?thesis
    using setupFirecracker_write_failure [OF m e(1) e(2),
        where tmpDir = "''/tmp/executor-firecracker-runner1''" and vm = "''vm''"
          and dev = "''/dev/loop0''" and ops = example_operations and w = empty_host]
    by (simp add: e empty_host_def)
qed

subsection \<open>The tear-down of the virtual machine\<close>

lemma teardownFirecracker_None: "fst (teardownFirecracker fl vm tmpDir ops w) = None"
  by (simp add: teardownFirecracker_def Let_def split: prod.splits)

lemma Teardown_None: "fst (Teardown fl r w) = None"
proof (cases r)
  case (dockerRunner d lg options)
  then show ?thesis by simp
next
  case (firecrackerRunner vm dev lg options tmpDir ops)
  then show ?thesis
    using teardownFirecracker_None[of fl vm tmpDir ops w]
    by (cases "teardownFirecracker fl vm tmpDir ops w") simp
qed

lemma teardownFirecracker_invocations:
  "invocations (snd (teardownFirecracker fl vm tmpDir ops w)) =
     invocations w @ [removeCommand vm ops]"
  by (simp add: teardownFirecracker_def Let_def RunCommand_eq os_RemoveAll_def log15_Error_def
      split: prod.splits option.splits)

lemma teardownFirecracker_removals:
  "removals (snd (teardownFirecracker fl vm tmpDir ops w)) = removals w @ [tmpDir]"
  by (simp add: teardownFirecracker_def Let_def RunCommand_eq os_RemoveAll_def log15_Error_def
      split: prod.splits option.splits)

lemma teardownFirecracker_logged:
  "logged (snd (teardownFirecracker fl vm tmpDir ops w)) =
     logged w @
       (case run_error fl (removeCommand vm ops) of
          Some err \<Rightarrow> [(''Failed to remove firecracker vm'', vm, err)]
        | None \<Rightarrow> []) @
       (case (if tmpDir = [] then None else removeAll_error fl tmpDir) of
          Some err \<Rightarrow> [(''Failed to remove firecracker state tmp dir'', vm, err)]
        | None \<Rightarrow> [])"
  by (simp add: teardownFirecracker_def Let_def RunCommand_eq os_RemoveAll_def log15_Error_def
      split: prod.splits option.splits)

text \<open>
  Claim C5. The tear-down always attempts both release steps: it hands
  \<^verbatim>\<open>ignite rm -f <name>\<close> to the runner and then removes the temporary
  directory, whatever the first step answered. Each failure is logged and none is
  returned: the result is nil for every host, so also for a second tear-down after the
  first (on whatever the host answers then, \<open>fl'\<close>), for the runner as
  \<^verbatim>\<open>NewRunner\<close> made it, with no set-up before, and for any runner \<open>rn\<close>
  torn down after a set-up, failed or not, or torn down twice.
\<close>

theorem teardownFirecracker_best_effort:
  "(let r = teardownFirecracker fl vm tmpDir ops w;
        rm = removeCommand vm ops
    in fst r = None \<and>
       Command rm = [''ignite'', ''rm'', ''-f'', vm] \<and>
       invocations (snd r) = invocations w @ [rm] \<and>
       removals (snd r) = removals w @ [tmpDir] \<and>
       logged (snd r) = logged w @
         (case run_error fl rm of
            Some err \<Rightarrow> [(''Failed to remove firecracker vm'', vm, err)]
          | None \<Rightarrow> []) @
         (case (if tmpDir = [] then None else removeAll_error fl tmpDir) of
            Some err \<Rightarrow> [(''Failed to remove firecracker state tmp dir'', vm, err)]
          | None \<Rightarrow> []) \<and>
       fst (teardownFirecracker fl' vm tmpDir ops (snd r)) = None \<and>
       fst (Teardown fl (NewRunner d lg options ops) w) = None \<and>
       fst (Teardown fl' (fst (snd (Setup fl rn w))) (snd (snd (Setup fl rn w)))) = None \<and>
       fst (Teardown fl' (fst (snd (Teardown fl rn w))) (snd (snd (Teardown fl rn w)))) = None)"
  unfolding Let_def
  by (simp only: teardownFirecracker_None Teardown_None teardownFirecracker_invocations
      teardownFirecracker_removals teardownFirecracker_logged)
     (simp add: removeCommand_def)

theorem teardownFirecracker_best_effort_witness:
  "fst (teardownFirecracker teardown_fault ''vm'' ''/tmp/fc'' example_operations empty_host) =
     None \<and>
   invocations (snd (teardownFirecracker teardown_fault ''vm'' ''/tmp/fc'' example_operations
      empty_host)) =
     [\<lparr>Key = ''teardown.firecracker.remove'', Command = [''ignite'', ''rm'', ''-f'', ''vm''],
       Dir = [], Env = [], Operation = Some (Op ''teardown.firecracker.remove'')\<rparr>] \<and>
   removals (snd (teardownFirecracker teardown_fault ''vm'' ''/tmp/fc'' example_operations
      empty_host)) = [''/tmp/fc''] \<and>
   logged (snd (teardownFirecracker teardown_fault ''vm'' ''/tmp/fc'' example_operations
      empty_host)) =
     [(''Failed to remove firecracker vm'', ''vm'', Failure ''exit status 1''),
      (''Failed to remove firecracker state tmp dir'', ''vm'', Failure ''permission denied'')]"
proof -
  have e: "run_error teardown_fault c = Some (Failure ''exit status 1'')"
    "removeAll_error teardown_fault q = Some (Failure ''permission denied'')" for c q
    by (simp_all add: teardown_fault_def no_faults_def)
  have r: "removeCommand ''vm'' example_operations =
     \<lparr>Key = ''teardown.firecracker.remove'', Command = [''ignite'', ''rm'', ''-f'', ''vm''],
      Dir = [], Env = [], Operation = Some (Op ''teardown.firecracker.remove'')\<rparr>"
    by (simp add: removeCommand_def example_operations_def)
  show ?thesis
    using teardownFirecracker_best_effort
      [of teardown_fault "''vm''" "''/tmp/fc''" example_operations empty_host]
    by (simp add: Let_def e r empty_host_def)
qed

subsection \<open>The runners\<close>

text \<open>
  Claim C9. With the Firecracker tier switched off, \<^verbatim>\<open>NewRunner\<close> gives the bare
  runner. Its set-up and its tear-down return nil and leave the runner and the host as
  they are. Its \<^verbatim>\<open>Run\<close>, for a specification with no image, hands one command to
  the execution primitive: the command tokens of the specification, in the
  specification's directory below the runner's directory (the runner's directory when
  the specification names none), and returns what the primitive answers.
\<close>

theorem bare_runner:
  "\<not> Enabled (FirecrackerOptions options) \<longrightarrow>
     (let r = NewRunner d lg options ops in
        r = dockerRunner d lg options \<and>
        Setup fl r w = (None, r, w) \<and>
        Teardown fl r w = (None, r, w) \<and>
        (CommandSpec.Image spec = [] \<longrightarrow>
           (let c = \<lparr>Key = CommandSpec.Key spec, Command = CommandSpec.Command spec,
                     Dir = path_Join d (CommandSpec.Dir spec), Env = CommandSpec.Env spec,
                     Operation = CommandSpec.Operation spec\<rparr>
            in Run h fl r spec w = (run_error fl c, r, w\<lparr>invocations := invocations w @ [c]\<rparr>))))"
  by (simp add: NewRunner_def Let_def runCommand_def formatRawOrDockerCommand_def)

theorem bare_runner_witness:
  "\<not> Enabled (FirecrackerOptions bare_options) \<and>
   CommandSpec.Image echo_spec = [] \<and>
   NewRunner ''/tmp/job'' ''logger'' bare_options example_operations =
     dockerRunner ''/tmp/job'' ''logger'' bare_options \<and>
   Setup no_faults (NewRunner ''/tmp/job'' ''logger'' bare_options example_operations)
     empty_host =
     (None, dockerRunner ''/tmp/job'' ''logger'' bare_options, empty_host) \<and>
   Teardown no_faults (NewRunner ''/tmp/job'' ''logger'' bare_options example_operations)
     empty_host =
     (None, dockerRunner ''/tmp/job'' ''logger'' bare_options, empty_host) \<and>
   Run plain_helpers no_faults
     (NewRunner ''/tmp/job'' ''logger'' bare_options example_operations) echo_spec empty_host =
     (None, dockerRunner ''/tmp/job'' ''logger'' bare_options,
      empty_host\<lparr>invocations :=
        [\<lparr>Key = ''step.1'', Command = [''echo'', ''hi''], Dir = ''/tmp/job'', Env = [],
          Operation = None\<rparr>]\<rparr>)"
proof -
  have a: "\<not> Enabled (FirecrackerOptions bare_options)" by (simp add: bare_options_def)
  have b: "CommandSpec.Image echo_spec = []" by (simp add: echo_spec_def)
  have p: "path_Join ''/tmp/job'' (CommandSpec.Dir echo_spec) = ''/tmp/job''"
    unfolding echo_spec_def by code_simp
  have e: "run_error no_faults c = None" for c by (simp add: no_faults_def)
  have i: "invocations empty_host = []" by (simp add: empty_host_def)
  have k: "CommandSpec.Key echo_spec = ''step.1''"
    "CommandSpec.Command echo_spec = [''echo'', ''hi'']"
    "CommandSpec.Env echo_spec = []" "CommandSpec.Operation echo_spec = None"
    by (simp_all add: echo_spec_def)
  note w = bare_runner [of bare_options "''/tmp/job''" "''logger''" example_operations
      no_faults empty_host echo_spec plain_helpers, unfolded Let_def p e i k]
  from w a have r: "NewRunner ''/tmp/job'' ''logger'' bare_options example_operations =
     dockerRunner ''/tmp/job'' ''logger'' bare_options"
    by blast
  from w a b show ?thesis unfolding r by simp
qed

end
